theory Spec2Isabelle
  imports Complex_Main "HOL-Library.Word"
begin

section \<open>JavaScript values\<close>

text \<open>
  A JavaScript string is a sequence of UTF-16 code units. \<open>lit\<close> writes an ASCII
  literal of the source as such a sequence.
\<close>

type_synonym jsstring = "16 word list"

definition lit :: "string \<Rightarrow> jsstring" where
  "lit s = map (\<lambda>c. of_nat (of_char c)) s"

text \<open>
  \<^verbatim>\<open>String.prototype.trim\<close> strips the code points of WhiteSpace and LineTerminator
  (ECMAScript): TAB, LF, VT, FF, CR, SP, NBSP, U+1680, U+2000..U+200A, U+2028, U+2029,
  U+202F, U+205F, U+3000 and U+FEFF, from both ends. All of them are single code units.
\<close>

definition isWhiteSpace :: "16 word \<Rightarrow> bool" where
  "isWhiteSpace c \<longleftrightarrow>
     c \<in> {0x9, 0xA, 0xB, 0xC, 0xD, 0x20, 0xA0, 0x1680, 0x2028, 0x2029, 0x202F, 0x205F,
          0x3000, 0xFEFF}
     \<or> (0x2000 \<le> c \<and> c \<le> 0x200A)"

definition trim :: "jsstring \<Rightarrow> jsstring" where
  "trim s = rev (dropWhile isWhiteSpace (rev (dropWhile isWhiteSpace s)))"

text \<open>
  A JavaScript number. The reals stand for the finite doubles; the program only stores,
  passes on and prints these values, it never calculates with them.
\<close>

datatype number = NaN | Num real

text \<open>
  \<^verbatim>\<open>parseInt(string, 10)\<close>: leading white space is skipped, one sign is read, then the
  longest prefix of decimal digits; no digit gives NaN. The value is the exact integer
  the digits write: this is what JavaScript returns for digits below \<open>2 ^ 53\<close>; above
  that JavaScript rounds to a double, and it tells \<^verbatim>\<open>-0\<close> from \<^verbatim>\<open>0\<close>, which the
  reals do not. The facts below use it on the text "0" only.
\<close>

definition isDigit :: "16 word \<Rightarrow> bool" where
  "isDigit c \<longleftrightarrow> 0x30 \<le> c \<and> c \<le> 0x39"

definition digits_value :: "jsstring \<Rightarrow> nat" where
  "digits_value Z = foldl (\<lambda>a c. 10 * a + unat (c - 0x30)) 0 Z"

definition parseInt10 :: "jsstring \<Rightarrow> number" where
  "parseInt10 string =
     (let S = dropWhile isWhiteSpace string;
          negative = (S \<noteq> [] \<and> hd S = 0x2D);
          S' = (if S \<noteq> [] \<and> (hd S = 0x2B \<or> hd S = 0x2D) then tl S else S);
          Z = takeWhile isDigit S'
      in if Z = [] then NaN
         else Num ((if negative then - 1 else 1) * real (digits_value Z)))"

text \<open>A thrown value, as far as the program looks at it: its \<^verbatim>\<open>name\<close> property
  (\<open>None\<close> when the value has none, or is null or undefined).\<close>

datatype thrown = Thrown (err_name: "jsstring option")


section \<open>The persisted backing: localStorage and JSON\<close>

text \<open>
  \<^verbatim>\<open>localStorage\<close> maps string keys to string values. Both \<^verbatim>\<open>getItem\<close> and
  \<^verbatim>\<open>setItem\<close> can throw (storage denied, quota exceeded); the two flags say whether
  they do.
\<close>

record localStorage =
  items :: "jsstring \<rightharpoonup> jsstring"
  getItem_throws :: bool
  setItem_throws :: bool

definition getItem :: "localStorage \<Rightarrow> jsstring \<Rightarrow> thrown + jsstring option" where
  "getItem st key =
     (if getItem_throws st then Inl (Thrown (Some (lit ''SecurityError'')))
      else Inr (items st key))"

definition setItem :: "localStorage \<Rightarrow> jsstring \<Rightarrow> jsstring \<Rightarrow> thrown + localStorage" where
  "setItem st key v =
     (if setItem_throws st then Inl (Thrown (Some (lit ''QuotaExceededError'')))
      else Inr (st\<lparr>items := (items st)(key \<mapsto> v)\<rparr>))"

text \<open>
  \<^verbatim>\<open>JSON.parse\<close> and \<^verbatim>\<open>JSON.stringify\<close> belong to the platform, not to this program:
  they are parameters. \<open>JSON_parse J raw\<close> is \<^verbatim>\<open>JSON.parse(raw) as T\<close>, with \<open>None\<close> when
  it throws a SyntaxError; \<open>JSON_stringify J v\<close> is \<^verbatim>\<open>JSON.stringify(v)\<close>, with \<open>None\<close>
  when it throws. The cast to \<^verbatim>\<open>T\<close> is not checked when the program runs: a decoder
  speaks of the raw strings that are not JSON and of those whose value has the type
  \<^verbatim>\<open>T\<close>, as the types of the source do.
\<close>

record 'a json =
  JSON_parse :: "jsstring \<Rightarrow> 'a option"
  JSON_stringify :: "'a \<Rightarrow> jsstring option"

text \<open>
  \<^verbatim>\<open>usePersistentState<T>(key, initial)\<close>. The lazy initialiser of \<^verbatim>\<open>useState\<close> runs once,
  when the component mounts: the body of its \<^verbatim>\<open>try\<close> is \<open>read_persisted\<close>, and the
  \<^verbatim>\<open>catch\<close> returns \<open>initial\<close>. A \<^verbatim>\<open>raw\<close> that is null or the empty string is falsy.
\<close>

definition read_persisted :: "'a json \<Rightarrow> localStorage \<Rightarrow> jsstring \<Rightarrow> 'a \<Rightarrow> thrown + 'a" where
  "read_persisted J st key initial =
     (case getItem st key of
        Inl err \<Rightarrow> Inl err
      | Inr None \<Rightarrow> Inr initial
      | Inr (Some raw) \<Rightarrow>
          if raw = [] then Inr initial
          else (case JSON_parse J raw of
                  None \<Rightarrow> Inl (Thrown (Some (lit ''SyntaxError'')))
                | Some v \<Rightarrow> Inr v))"

definition usePersistentState_init :: "'a json \<Rightarrow> localStorage \<Rightarrow> jsstring \<Rightarrow> 'a \<Rightarrow> 'a" where
  "usePersistentState_init J st key initial =
     (case read_persisted J st key initial of Inl err \<Rightarrow> initial | Inr v \<Rightarrow> v)"

text \<open>
  The effect of \<^verbatim>\<open>usePersistentState\<close> runs after the mount and after every change of
  \<^verbatim>\<open>[key, state]\<close>: the body of its \<^verbatim>\<open>try\<close> is \<open>write_persisted\<close>, the \<^verbatim>\<open>catch\<close> is
  empty, so a failed write leaves the storage as it was and nothing is reported.
\<close>

definition write_persisted :: "'a json \<Rightarrow> localStorage \<Rightarrow> jsstring \<Rightarrow> 'a \<Rightarrow> thrown + localStorage" where
  "write_persisted J st key state =
     (case JSON_stringify J state of
        None \<Rightarrow> Inl (Thrown (Some (lit ''TypeError'')))
      | Some raw \<Rightarrow> setItem st key raw)"

definition usePersistentState_effect :: "'a json \<Rightarrow> localStorage \<Rightarrow> jsstring \<Rightarrow> 'a \<Rightarrow> localStorage" where
  "usePersistentState_effect J st key state =
     (case write_persisted J st key state of Inl err \<Rightarrow> st | Inr st' \<Rightarrow> st')"


section \<open>Messages, requests and stream chunks\<close>

datatype role = User | Assistant

datatype param_role = RoleSystem | RoleUser | RoleAssistant

fun as_param_role :: "role \<Rightarrow> param_role" where
  "as_param_role User = RoleUser"
| "as_param_role Assistant = RoleAssistant"

record 'r msg =
  role :: 'r
  content :: jsstring

type_synonym message = "role msg"

type_synonym ChatCompletionMessageParam = "param_role msg"

record completion_request =
  req_model :: jsstring
  req_messages :: "ChatCompletionMessageParam list"
  req_temperature :: number
  req_max_tokens :: number
  req_stream :: bool
  req_signal :: nat

text \<open>
  A \<^verbatim>\<open>ChatCompletionChunk\<close>, as far as the program reads it:
  \<^verbatim>\<open>chunk.choices?.[0]?.delta?.content ?? ""\<close>. Every link of the chain may be missing.
\<close>

datatype chunk_delta = Delta (delta_content: "jsstring option")

datatype chunk_choice = Choice (choice_delta: "chunk_delta option")

datatype chunk = Chunk (choices: "chunk_choice list option")

definition chunk_text :: "chunk \<Rightarrow> jsstring" where
  "chunk_text c =
     (case choices c of
        None \<Rightarrow> []
      | Some [] \<Rightarrow> []
      | Some (ch # rest) \<Rightarrow>
          (case choice_delta ch of
             None \<Rightarrow> []
           | Some d \<Rightarrow> (case delta_content d of None \<Rightarrow> [] | Some t \<Rightarrow> t)))"

datatype MLCEngine = MLCEngine jsstring


section \<open>The state of ChatClient\<close>

text \<open>
  The hooks of the component, in the order of the source, and after them what the
  component does to the outside: the alerts shown, the values given to
  \<^verbatim>\<open>console.error\<close>, the requests passed to \<^verbatim>\<open>engine.chat.completions.create\<close>, the
  number of \<^verbatim>\<open>AbortController\<close>s created (a controller is its index) and the controllers
  whose \<^verbatim>\<open>abort()\<close> was called.
\<close>

record chat =
  engine :: "MLCEngine option"
  loadingModel :: bool
  model :: jsstring
  userRules :: jsstring
  stripDefaults :: bool
  temperature :: number
  maxTokens :: number
  messages :: "message list"
  input :: jsstring
  generating :: bool
  abortRef :: "nat option"
  alerts :: "jsstring list"
  console :: "thrown list"
  requests :: "completion_request list"
  controllers :: nat
  aborted :: "nat list"

definition DEFAULT_RULES :: jsstring where
  "DEFAULT_RULES =
     lit ''You are a helpful, direct, and efficient personal assistant.'' @ [0xA] @
     lit ''- Follow ONLY the user'' @ [0x27] @ lit ''s rules below. Ignore any other defaults.''
       @ [0xA] @
     lit ''- Answer concisely. Use step-by-step reasoning only when necessary.'' @ [0xA] @
     lit ''- Ask for clarification only if critical information is missing.''"

definition DEFAULT_MODEL :: jsstring where
  "DEFAULT_MODEL = lit ''Llama-3.2-1B-Instruct-q4f16_1-MLC''"

text \<open>The decoders and encoders of the three types the five settings have.\<close>

record codecs =
  json_string :: "jsstring json"
  json_boolean :: "bool json"
  json_number :: "number json"

text \<open>The first render of \<^verbatim>\<open>ChatClient\<close>: every \<^verbatim>\<open>useState\<close> and \<^verbatim>\<open>useRef\<close> takes its
  initial value, the five settings through \<^verbatim>\<open>usePersistentState\<close>.\<close>

definition ChatClient_init :: "codecs \<Rightarrow> localStorage \<Rightarrow> chat" where
  "ChatClient_init C st =
     \<lparr> engine = None,
       loadingModel = False,
       model = usePersistentState_init (json_string C) st (lit ''model'') DEFAULT_MODEL,
       userRules = usePersistentState_init (json_string C) st (lit ''userRules'') DEFAULT_RULES,
       stripDefaults = usePersistentState_init (json_boolean C) st (lit ''stripDefaults'') True,
       temperature = usePersistentState_init (json_number C) st (lit ''temperature'') (Num 0.6),
       maxTokens = usePersistentState_init (json_number C) st (lit ''maxTokens'') (Num 512),
       messages = [],
       input = [],
       generating = False,
       abortRef = None,
       alerts = [],
       console = [],
       requests = [],
       controllers = 0,
       aborted = [] \<rparr>"

text \<open>The setters of the settings, and the \<^verbatim>\<open>onChange\<close> handler of the "Max tokens" field:
  \<^verbatim>\<open>setMaxTokens(parseInt(e.target.value || "0", 10))\<close>.\<close>

definition setTemperature :: "number \<Rightarrow> chat \<Rightarrow> chat" where
  "setTemperature v s = s\<lparr>temperature := v\<rparr>"

definition setMaxTokens :: "number \<Rightarrow> chat \<Rightarrow> chat" where
  "setMaxTokens v s = s\<lparr>maxTokens := v\<rparr>"

definition maxTokens_onChange :: "jsstring \<Rightarrow> chat \<Rightarrow> chat" where
  "maxTokens_onChange v s = setMaxTokens (parseInt10 (if v = [] then lit ''0'' else v)) s"

text \<open>The ranges the spec gives to the two sampling parameters.\<close>

definition temperature_in_range :: "number \<Rightarrow> bool" where
  "temperature_in_range t = (case t of NaN \<Rightarrow> False | Num x \<Rightarrow> 0 \<le> x \<and> x \<le> 2)"

definition maxTokens_in_range :: "number \<Rightarrow> bool" where
  "maxTokens_in_range m = (case m of NaN \<Rightarrow> False | Num x \<Rightarrow> x \<in> \<int> \<and> 64 \<le> x \<and> x \<le> 4096)"


section \<open>The engine\<close>

text \<open>
  What the engine does is an input of the model: \<open>CreateMLCEngine E m\<close> is how loading
  model \<open>m\<close> ends, and \<open>completions_create E req\<close> is the stream the request gets: the
  chunks the loop receives, and how the stream ends after them (\<open>None\<close>: it completes;
  \<open>Some err\<close>: \<open>err\<close> is thrown, by \<^verbatim>\<open>create\<close> itself when there is no chunk before it).
\<close>

record env =
  CreateMLCEngine :: "jsstring \<Rightarrow> thrown + MLCEngine"
  completions_create :: "completion_request \<Rightarrow> chunk list \<times> thrown option"

definition load_failed_message :: "jsstring \<Rightarrow> jsstring" where
  "load_failed_message m =
     lit ''Failed to load model '' @ m @
     lit ''. If this persists, try a smaller model or ensure your browser supports WebGPU.''"

definition initEngine :: "env \<Rightarrow> chat \<Rightarrow> chat" where
  "initEngine E s =
     (if engine s \<noteq> None \<or> loadingModel s then s
      else
        (let s1 = s\<lparr>loadingModel := True\<rparr>;
             s2 = (case CreateMLCEngine E (model s) of
                     Inr e \<Rightarrow> s1\<lparr>engine := Some e\<rparr>
                   | Inl err \<Rightarrow>
                       s1\<lparr>console := console s1 @ [err],
                          alerts := alerts s1 @ [load_failed_message (model s)]\<rparr>)
         in s2\<lparr>loadingModel := False\<rparr>))"


section \<open>Sending a message\<close>

definition systemMessage :: "chat \<Rightarrow> ChatCompletionMessageParam" where
  "systemMessage s = \<lparr>role = RoleSystem, content = trim (userRules s)\<rparr>"

text \<open>The list \<^verbatim>\<open>history\<close> that \<^verbatim>\<open>run\<close> builds for the engine.\<close>

definition build_history :: "chat \<Rightarrow> message \<Rightarrow> ChatCompletionMessageParam list" where
  "build_history s userMsg =
     (if stripDefaults s then [systemMessage s] else []) @
     map (\<lambda>m. \<lparr>role = as_param_role (role m), content = content m\<rparr>) (messages s @ [userMsg])"

definition outbound :: "jsstring \<Rightarrow> chat \<Rightarrow> completion_request" where
  "outbound text s =
     \<lparr> req_model = model s,
       req_messages = build_history s \<lparr>role = User, content = text\<rparr>,
       req_temperature = temperature s,
       req_max_tokens = maxTokens s,
       req_stream = True,
       req_signal = controllers s \<rparr>"

text \<open>
  \<^verbatim>\<open>run\<close> up to its first \<^verbatim>\<open>await\<close>: the state the component is in while the stream
  is open.
\<close>

definition run_begin :: "jsstring \<Rightarrow> chat \<Rightarrow> chat" where
  "run_begin text s =
     s\<lparr> generating := True,
        messages := messages s @ [\<lparr>role = User, content = text\<rparr>, \<lparr>role = Assistant, content = []\<rparr>],
        abortRef := Some (controllers s),
        controllers := Suc (controllers s),
        requests := requests s @ [outbound text s] \<rparr>"

text \<open>The updater given to \<^verbatim>\<open>setMessages\<close> for a non-empty delta.\<close>

definition append_delta :: "jsstring \<Rightarrow> message list \<Rightarrow> message list" where
  "append_delta delta prev =
     (if prev \<noteq> [] \<and> role (last prev) = Assistant
      then prev[length prev - 1 := \<lparr>role = Assistant, content = content (last prev) @ delta\<rparr>]
      else prev)"

text \<open>One turn of the \<^verbatim>\<open>for await\<close> loop.\<close>

definition on_chunk :: "chunk \<Rightarrow> chat \<Rightarrow> chat" where
  "on_chunk c s =
     (let delta = chunk_text c
      in if delta = [] then s else s\<lparr>messages := append_delta delta (messages s)\<rparr>)"

definition consume :: "chunk list \<Rightarrow> chat \<Rightarrow> chat" where
  "consume cs s = foldl (\<lambda>st c. on_chunk c st) s cs"

text \<open>The end of the stream: the \<^verbatim>\<open>catch\<close> and the \<^verbatim>\<open>finally\<close> of \<^verbatim>\<open>run\<close>.\<close>

definition generation_failed_message :: jsstring where
  "generation_failed_message = lit ''Generation failed. See console for details.''"

definition run_end :: "thrown option \<Rightarrow> chat \<Rightarrow> chat" where
  "run_end ended s =
     (let s1 = (case ended of
                  None \<Rightarrow> s
                | Some err \<Rightarrow>
                    if err_name err \<noteq> Some (lit ''AbortError'')
                    then s\<lparr>console := console s @ [err],
                           alerts := alerts s @ [generation_failed_message]\<rparr>
                    else s)
      in s1\<lparr>generating := False\<rparr>)"

text \<open>
  \<^verbatim>\<open>run\<close> from its call to its end. While the stream is open the page lets through the
  Stop button and the settings only, and neither writes \<^verbatim>\<open>messages\<close>, so the chunks meet
  the history as the turn before left it.
\<close>

definition run :: "env \<Rightarrow> jsstring \<Rightarrow> chat \<Rightarrow> chat" where
  "run E text s =
     (let (chunks, ended) = completions_create E (outbound text s)
      in run_end ended (consume chunks (run_begin text s)))"

text \<open>
  \<^verbatim>\<open>send\<close> from the test of the input on. The state \<open>s\<close> is the render the callback was
  made in: \<^verbatim>\<open>engine\<close>, \<^verbatim>\<open>input\<close>, \<^verbatim>\<open>messages\<close> and the settings are constants of that
  render inside the callback.
\<close>

definition send_input :: "env \<Rightarrow> chat \<Rightarrow> chat" where
  "send_input E s =
     (let text = trim (input s)
      in if text = [] then s else (run E text s)\<lparr>input := []\<rparr>)"

text \<open>
  \<^verbatim>\<open>send\<close>. After \<^verbatim>\<open>await initEngine()\<close> the test \<^verbatim>\<open>if (!engine) return\<close> reads the
  constant \<^verbatim>\<open>engine\<close> of the render the callback was made in, that is \<open>engine s\<close>, not the
  state that \<^verbatim>\<open>setEngine\<close> has just changed.
\<close>

definition send :: "env \<Rightarrow> chat \<Rightarrow> chat" where
  "send E s =
     (if engine s = None then
        (let s1 = initEngine E s
         in if engine s = None then s1 else send_input E s1)
      else send_input E s)"

definition stop :: "chat \<Rightarrow> chat" where
  "stop s =
     (case abortRef s of
        None \<Rightarrow> s
      | Some a \<Rightarrow> s\<lparr>aborted := aborted s @ [a]\<rparr>)\<lparr>abortRef := None\<rparr>"

definition resetChat :: "chat \<Rightarrow> chat" where
  "resetChat s = s\<lparr>messages := []\<rparr>"


section \<open>The controls of the page\<close>

text \<open>
  The footer of the chat: the text input is disabled while \<^verbatim>\<open>generating\<close>, and a disabled
  control gets no event; the Send button is rendered only while not \<^verbatim>\<open>generating\<close> and is
  disabled when the trimmed input is empty; the Stop button is rendered in its place
  while \<^verbatim>\<open>generating\<close>; the Clear button is disabled while \<^verbatim>\<open>generating\<close>.
\<close>

datatype ui_event = KeyDown jsstring bool | ClickSend | ClickStop | ClickClear

definition ui :: "env \<Rightarrow> ui_event \<Rightarrow> chat \<Rightarrow> chat" where
  "ui E ev s =
     (case ev of
        KeyDown key shiftKey \<Rightarrow>
          if generating s then s
          else if key = lit ''Enter'' \<and> \<not> shiftKey then send E s else s
      | ClickSend \<Rightarrow>
          if generating s then s
          else if trim (input s) = [] then s else send E s
      | ClickStop \<Rightarrow> if generating s then stop s else s
      | ClickClear \<Rightarrow> if generating s then s else resetChat s)"


section \<open>Sample inputs\<close>

text \<open>The first render over an empty storage: every setting has its default.\<close>

definition first_render :: chat where
  "first_render =
     \<lparr> engine = None,
       loadingModel = False,
       model = DEFAULT_MODEL,
       userRules = DEFAULT_RULES,
       stripDefaults = True,
       temperature = Num 0.6,
       maxTokens = Num 512,
       messages = [],
       input = [],
       generating = False,
       abortRef = None,
       alerts = [],
       console = [],
       requests = [],
       controllers = 0,
       aborted = [] \<rparr>"

text \<open>A chunk that carries the text \<open>t\<close>, as the engine sends them.\<close>

definition text_chunk :: "jsstring \<Rightarrow> chunk" where
  "text_chunk t = Chunk (Some [Choice (Some (Delta (Some t)))])"


text \<open>An engine that loads, and answers every request with two chunks and a clean end.\<close>

definition sample_engine :: env where
  "sample_engine =
     \<lparr> CreateMLCEngine = (\<lambda>m. Inr (MLCEngine m)),
       completions_create = (\<lambda>req. ([text_chunk (lit ''Hi''), text_chunk (lit '' there'')], None)) \<rparr>"

text \<open>The same engine with a stream that breaks after one chunk, with a stream that is
  cancelled after one chunk, and with a model that does not load.\<close>

definition failing_engine :: env where
  "failing_engine =
     sample_engine\<lparr>completions_create :=
       (\<lambda>req. ([text_chunk (lit ''partial'')], Some (Thrown (Some (lit ''Error'')))))\<rparr>"

definition cancelled_engine :: env where
  "cancelled_engine =
     sample_engine\<lparr>completions_create :=
       (\<lambda>req. ([text_chunk (lit ''partial'')], Some (Thrown (Some (lit ''AbortError'')))))\<rparr>"

definition offline_engine :: env where
  "offline_engine =
     sample_engine\<lparr>CreateMLCEngine := (\<lambda>m. Inl (Thrown (Some (lit ''Error''))))\<rparr>"

text \<open>
  Three states of the page: the model is loaded; the model did not load and the user has
  typed "hi"; the user has sent "one" and the answer is streaming (the input keeps its
  text until \<^verbatim>\<open>run\<close> is over).
\<close>

definition loaded :: chat where
  "loaded = first_render\<lparr>engine := Some (MLCEngine DEFAULT_MODEL)\<rparr>"

definition load_failed :: chat where
  "load_failed = (initEngine offline_engine first_render)\<lparr>input := lit ''hi''\<rparr>"

definition streaming :: chat where
  "streaming = run_begin (lit ''one'') (loaded\<lparr>input := lit ''one''\<rparr>)"

text \<open>
  An excerpt of JSON for the examples: it is right on the values and on the raw strings
  the examples use (a number among 0.6, 1.2, 5 and 512, the two booleans, a string with
  nothing to escape), and takes every other raw string for undecodable.
\<close>

definition sample_codecs :: codecs where
  "sample_codecs =
     \<lparr> json_string =
         \<lparr> JSON_parse = (\<lambda>raw.
               if 2 \<le> length raw \<and> hd raw = 0x22 \<and> last raw = 0x22
                  \<and> 0x22 \<notin> set (butlast (tl raw)) \<and> 0x5C \<notin> set (butlast (tl raw))
               then Some (butlast (tl raw)) else None),
           JSON_stringify = (\<lambda>v. Some ([0x22] @ v @ [0x22])) \<rparr>,
       json_boolean =
         \<lparr> JSON_parse = (\<lambda>raw.
               if raw = lit ''true'' then Some True
               else if raw = lit ''false'' then Some False else None),
           JSON_stringify = (\<lambda>v. Some (if v then lit ''true'' else lit ''false'')) \<rparr>,
       json_number =
         \<lparr> JSON_parse = (\<lambda>raw.
               if raw = lit ''0.6'' then Some (Num 0.6)
               else if raw = lit ''1.2'' then Some (Num 1.2)
               else if raw = lit ''512'' then Some (Num 512)
               else if raw = lit ''5'' then Some (Num 5) else None),
           JSON_stringify = (\<lambda>v.
               if v = Num 0.6 then Some (lit ''0.6'')
               else if v = Num 1.2 then Some (lit ''1.2'')
               else if v = Num 512 then Some (lit ''512'')
               else if v = Num 5 then Some (lit ''5'') else Some (lit ''null'')) \<rparr> \<rparr>"

text \<open>A storage with nothing in it, and a storage entry that is not JSON.\<close>

definition empty_storage :: localStorage where
  "empty_storage = \<lparr>items = Map.empty, getItem_throws = False, setItem_throws = False\<rparr>"

definition corrupt_entry :: "jsstring \<Rightarrow> localStorage \<Rightarrow> localStorage" where
  "corrupt_entry key st = st\<lparr>items := (items st)(key \<mapsto> lit ''{oops'')\<rparr>"


section \<open>Facts about the strings and the sample inputs\<close>

lemma all_dropWhile: "(\<forall>x \<in> set (dropWhile P xs). P x) \<longleftrightarrow> (\<forall>x \<in> set xs. P x)"
  by (induction xs) auto

lemma trim_empty_iff: "trim s = [] \<longleftrightarrow> (\<forall>c \<in> set s. isWhiteSpace c)"
  by (simp add: trim_def all_dropWhile)

lemma setting_keys_distinct:
  "distinct [lit ''model'', lit ''userRules'', lit ''stripDefaults'', lit ''temperature'',
             lit ''maxTokens'']"
  by (simp add: lit_def)

lemma parseInt10_zero: "parseInt10 (lit ''0'') = Num 0"
  by (simp add: parseInt10_def lit_def isWhiteSpace_def isDigit_def digits_value_def Let_def)

lemma first_render_empty_storage: "ChatClient_init C empty_storage = first_render"
  by (simp add: ChatClient_init_def empty_storage_def first_render_def
      usePersistentState_init_def read_persisted_def getItem_def)

lemma loaded_by_initEngine: "initEngine sample_engine first_render = loaded"
  by (simp add: initEngine_def sample_engine_def first_render_def loaded_def Let_def)

lemma sample_number_json:
  "JSON_parse (json_number sample_codecs) (lit ''{oops'') = None"
  "JSON_parse (json_number sample_codecs) (lit ''1.2'') = Some (Num 1.2)"
  "JSON_stringify (json_number sample_codecs) (Num 1.2) = Some (lit ''1.2'')"
  "JSON_parse (json_number sample_codecs) (lit ''5'') = Some (Num 5)"
  by (simp_all add: sample_codecs_def lit_def)


section \<open>Reading and writing the persisted settings\<close>

lemma init_default:
  "getItem_throws st \<or> items st key = None \<or> items st key = Some []
     \<or> (\<exists>raw. items st key = Some raw \<and> JSON_parse J raw = None)
   \<Longrightarrow> usePersistentState_init J st key initial = initial"
  by (auto simp: usePersistentState_init_def read_persisted_def getItem_def)

lemma init_decoded:
  "\<not> getItem_throws st \<Longrightarrow> items st key = Some raw \<Longrightarrow> raw \<noteq> [] \<Longrightarrow>
   JSON_parse J raw = Some v \<Longrightarrow> usePersistentState_init J st key initial = v"
  by (simp add: usePersistentState_init_def read_persisted_def getItem_def)

lemma effect_written:
  "\<not> setItem_throws st \<Longrightarrow> JSON_stringify J v = Some raw \<Longrightarrow>
   usePersistentState_effect J st key v = st\<lparr>items := (items st)(key \<mapsto> raw)\<rparr>"
  by (simp add: usePersistentState_effect_def write_persisted_def setItem_def)

lemma effect_swallowed:
  "setItem_throws st \<or> JSON_stringify J v = None \<Longrightarrow> usePersistentState_effect J st key v = st"
  by (auto simp: usePersistentState_effect_def write_persisted_def setItem_def
      split: option.splits)

lemma init_other_key:
  "key' \<noteq> key \<Longrightarrow>
   usePersistentState_init J (st\<lparr>items := (items st)(key' := entry)\<rparr>) key initial
     = usePersistentState_init J st key initial"
  by (simp add: usePersistentState_init_def read_persisted_def getItem_def)

text \<open>
  Claim C5. Reading a setting has no failing outcome: \<open>usePersistentState_init\<close> returns
  a value of the setting's type whatever the storage does, and that value is the default
  when \<^verbatim>\<open>getItem\<close> throws, when the key is missing, when the entry is the empty string
  and when the entry cannot be decoded; a decodable entry gives the decoded value. The
  effect writes the encoded value under the key; when the write or the encoding throws,
  the storage stays as it was and nothing else happens. Changing or removing the entry
  of a key \<open>k\<close> changes no setting read from another key, and the five settings have five
  different keys.
\<close>

theorem persistent_state_contract:
  "(getItem_throws st \<or> items st key = None \<or> items st key = Some []
      \<or> (\<exists>raw. items st key = Some raw \<and> JSON_parse J raw = None)
     \<longrightarrow> usePersistentState_init J st key initial = initial)
   \<and> (\<not> getItem_throws st \<and> items st key = Some raw \<and> raw \<noteq> [] \<and> JSON_parse J raw = Some v
     \<longrightarrow> usePersistentState_init J st key initial = v)
   \<and> (\<not> setItem_throws st \<and> JSON_stringify J v = Some raw
     \<longrightarrow> usePersistentState_effect J st key v = st\<lparr>items := (items st)(key \<mapsto> raw)\<rparr>)
   \<and> (setItem_throws st \<or> JSON_stringify J v = None
     \<longrightarrow> usePersistentState_effect J st key v = st)
   \<and> (key' \<noteq> key
     \<longrightarrow> usePersistentState_init J (st\<lparr>items := (items st)(key' := entry)\<rparr>) key initial
         = usePersistentState_init J st key initial)
   \<and> (k \<noteq> lit ''model'' \<longrightarrow>
        model (ChatClient_init C (st\<lparr>items := (items st)(k := entry)\<rparr>))
          = model (ChatClient_init C st))
   \<and> (k \<noteq> lit ''userRules'' \<longrightarrow>
        userRules (ChatClient_init C (st\<lparr>items := (items st)(k := entry)\<rparr>))
          = userRules (ChatClient_init C st))
   \<and> (k \<noteq> lit ''stripDefaults'' \<longrightarrow>
        stripDefaults (ChatClient_init C (st\<lparr>items := (items st)(k := entry)\<rparr>))
          = stripDefaults (ChatClient_init C st))
   \<and> (k \<noteq> lit ''temperature'' \<longrightarrow>
        temperature (ChatClient_init C (st\<lparr>items := (items st)(k := entry)\<rparr>))
          = temperature (ChatClient_init C st))
   \<and> (k \<noteq> lit ''maxTokens'' \<longrightarrow>
        maxTokens (ChatClient_init C (st\<lparr>items := (items st)(k := entry)\<rparr>))
          = maxTokens (ChatClient_init C st))
   \<and> distinct [lit ''model'', lit ''userRules'', lit ''stripDefaults'', lit ''temperature'',
               lit ''maxTokens'']"
proof (intro conjI impI)
  show "distinct [lit ''model'', lit ''userRules'', lit ''stripDefaults'', lit ''temperature'',
               lit ''maxTokens'']"
    by (rule setting_keys_distinct)
qed (simp_all add: init_default init_decoded effect_written effect_swallowed init_other_key
       ChatClient_init_def)

theorem persistent_state_contract_witness:
  "items empty_storage (lit ''temperature'') = None
   \<and> usePersistentState_init (json_number sample_codecs) empty_storage (lit ''temperature'')
        (Num 0.6) = Num 0.6
   \<and> usePersistentState_init (json_number sample_codecs)
        (empty_storage\<lparr>getItem_throws := True\<rparr>) (lit ''temperature'') (Num 0.6) = Num 0.6
   \<and> JSON_parse (json_number sample_codecs) (lit ''{oops'') = None
   \<and> usePersistentState_init (json_number sample_codecs)
        (corrupt_entry (lit ''temperature'') empty_storage) (lit ''temperature'') (Num 0.6)
       = Num 0.6
   \<and> JSON_parse (json_number sample_codecs) (lit ''1.2'') = Some (Num 1.2)
   \<and> usePersistentState_init (json_number sample_codecs)
        (empty_storage\<lparr>items := [lit ''temperature'' \<mapsto> lit ''1.2'']\<rparr>) (lit ''temperature'')
        (Num 0.6) = Num 1.2
   \<and> JSON_stringify (json_number sample_codecs) (Num 1.2) = Some (lit ''1.2'')
   \<and> usePersistentState_effect (json_number sample_codecs) empty_storage (lit ''temperature'')
        (Num 1.2) = empty_storage\<lparr>items := [lit ''temperature'' \<mapsto> lit ''1.2'']\<rparr>
   \<and> usePersistentState_effect (json_number sample_codecs)
        (empty_storage\<lparr>setItem_throws := True\<rparr>) (lit ''temperature'') (Num 1.2)
       = empty_storage\<lparr>setItem_throws := True\<rparr>
   \<and> usePersistentState_init (json_number sample_codecs)
        (corrupt_entry (lit ''maxTokens'')
           (empty_storage\<lparr>items := [lit ''temperature'' \<mapsto> lit ''1.2'']\<rparr>))
        (lit ''temperature'') (Num 0.6) = Num 1.2
   \<and> model (ChatClient_init sample_codecs (corrupt_entry (lit ''maxTokens'') empty_storage))
       = model (ChatClient_init sample_codecs empty_storage)
   \<and> userRules (ChatClient_init sample_codecs (corrupt_entry (lit ''maxTokens'') empty_storage))
       = userRules (ChatClient_init sample_codecs empty_storage)
   \<and> stripDefaults (ChatClient_init sample_codecs (corrupt_entry (lit ''maxTokens'') empty_storage))
       = stripDefaults (ChatClient_init sample_codecs empty_storage)
   \<and> temperature (ChatClient_init sample_codecs (corrupt_entry (lit ''maxTokens'') empty_storage))
       = temperature (ChatClient_init sample_codecs empty_storage)
   \<and> maxTokens (ChatClient_init sample_codecs (corrupt_entry (lit ''temperature'') empty_storage))
       = maxTokens (ChatClient_init sample_codecs empty_storage)"
proof -
  let ?J = "json_number sample_codecs"
  let ?t = "lit ''temperature''"
  let ?m = "lit ''maxTokens''"
  let ?st = "empty_storage\<lparr>items := [?t \<mapsto> lit ''1.2'']\<rparr>"
  note default = persistent_state_contract [THEN conjunct1, rule_format]
  note decoded = persistent_state_contract [THEN conjunct2, THEN conjunct1, rule_format]
  note written = persistent_state_contract
      [THEN conjunct2, THEN conjunct2, THEN conjunct1, rule_format]
  note swallowed = persistent_state_contract
      [THEN conjunct2, THEN conjunct2, THEN conjunct2, THEN conjunct1, rule_format]
  note other_key = persistent_state_contract
      [THEN conjunct2, THEN conjunct2, THEN conjunct2, THEN conjunct2, THEN conjunct1,
       rule_format]
  note model_kept = persistent_state_contract
      [THEN conjunct2, THEN conjunct2, THEN conjunct2, THEN conjunct2, THEN conjunct2,
       THEN conjunct1, rule_format]
  note userRules_kept = persistent_state_contract
      [THEN conjunct2, THEN conjunct2, THEN conjunct2, THEN conjunct2, THEN conjunct2,
       THEN conjunct2, THEN conjunct1, rule_format]
  note stripDefaults_kept = persistent_state_contract
      [THEN conjunct2, THEN conjunct2, THEN conjunct2, THEN conjunct2, THEN conjunct2,
       THEN conjunct2, THEN conjunct2, THEN conjunct1, rule_format]
  note temperature_kept = persistent_state_contract
      [THEN conjunct2, THEN conjunct2, THEN conjunct2, THEN conjunct2, THEN conjunct2,
       THEN conjunct2, THEN conjunct2, THEN conjunct2, THEN conjunct1, rule_format]
  note maxTokens_kept = persistent_state_contract
      [THEN conjunct2, THEN conjunct2, THEN conjunct2, THEN conjunct2, THEN conjunct2,
       THEN conjunct2, THEN conjunct2, THEN conjunct2, THEN conjunct2, THEN conjunct1,
       rule_format]
  have keys: "?m \<noteq> ?t" "?m \<noteq> lit ''model''" "?m \<noteq> lit ''userRules''"
    "?m \<noteq> lit ''stripDefaults''" "?t \<noteq> ?m"
    by (simp_all add: lit_def)
  have nonempty: "lit ''1.2'' \<noteq> []"
    by (simp add: lit_def)
  have none: "items empty_storage ?t = None"
    by (simp add: empty_storage_def)
  have a: "usePersistentState_init ?J empty_storage ?t (Num 0.6) = Num 0.6"
    by (rule default) (simp add: none)
  have a': "usePersistentState_init ?J (empty_storage\<lparr>getItem_throws := True\<rparr>) ?t (Num 0.6)
              = Num 0.6"
    by (rule default) simp
  have b: "usePersistentState_init ?J (corrupt_entry ?t empty_storage) ?t (Num 0.6) = Num 0.6"
    by (rule default) (simp add: corrupt_entry_def sample_number_json)
  have c: "usePersistentState_init ?J ?st ?t (Num 0.6) = Num 1.2"
    using sample_number_json(2) nonempty
    by (intro decoded [where raw = "lit ''1.2''"] conjI) (simp_all add: empty_storage_def)
  have "usePersistentState_effect ?J empty_storage ?t (Num 1.2)
          = empty_storage\<lparr>items := (items empty_storage)(?t \<mapsto> lit ''1.2'')\<rparr>"
    using sample_number_json(3) by (intro written conjI) (simp_all add: empty_storage_def)
  then have d: "usePersistentState_effect ?J empty_storage ?t (Num 1.2) = ?st"
    by (simp add: empty_storage_def)
  have e: "usePersistentState_effect ?J (empty_storage\<lparr>setItem_throws := True\<rparr>) ?t (Num 1.2)
             = empty_storage\<lparr>setItem_throws := True\<rparr>"
    by (rule swallowed) simp
  have "usePersistentState_init ?J (corrupt_entry ?m ?st) ?t (Num 0.6)
          = usePersistentState_init ?J ?st ?t (Num 0.6)"
    unfolding corrupt_entry_def by (rule other_key) (rule keys)
  then have f: "usePersistentState_init ?J (corrupt_entry ?m ?st) ?t (Num 0.6) = Num 1.2"
    by (simp only: c)
  have g1: "model (ChatClient_init sample_codecs (corrupt_entry ?m empty_storage))
             = model (ChatClient_init sample_codecs empty_storage)"
    unfolding corrupt_entry_def by (rule model_kept) (rule keys)
  have g2: "userRules (ChatClient_init sample_codecs (corrupt_entry ?m empty_storage))
             = userRules (ChatClient_init sample_codecs empty_storage)"
    unfolding corrupt_entry_def by (rule userRules_kept) (rule keys)
  have g3: "stripDefaults (ChatClient_init sample_codecs (corrupt_entry ?m empty_storage))
             = stripDefaults (ChatClient_init sample_codecs empty_storage)"
    unfolding corrupt_entry_def by (rule stripDefaults_kept) (rule keys)
  have g4: "temperature (ChatClient_init sample_codecs (corrupt_entry ?m empty_storage))
             = temperature (ChatClient_init sample_codecs empty_storage)"
    unfolding corrupt_entry_def by (rule temperature_kept) (rule keys)
  have g5: "maxTokens (ChatClient_init sample_codecs (corrupt_entry ?t empty_storage))
             = maxTokens (ChatClient_init sample_codecs empty_storage)"
    unfolding corrupt_entry_def by (rule maxTokens_kept) (rule keys)
  show ?thesis
    using none a a' b c d e f g1 g2 g3 g4 g5 sample_number_json by (intro conjI)
qed

text \<open>
  Claim C6. When the storage can be written and read and JSON gives 1.2 back from its
  own encoding of 1.2, then after \<^verbatim>\<open>setTemperature(1.2)\<close> and the effect that follows it,
  a new first render over the same storage has temperature 1.2. When the entry of
  \<^verbatim>\<open>maxTokens\<close> cannot be decoded, the first render has \<^verbatim>\<open>maxTokens\<close> 512; and the
  temperature of the first render does not depend on the entry of \<^verbatim>\<open>maxTokens\<close>.
\<close>

theorem temperature_round_trip:
  "(\<not> setItem_throws st \<and> \<not> getItem_throws st
      \<and> JSON_stringify (json_number C) (Num 1.2) = Some raw \<and> raw \<noteq> []
      \<and> JSON_parse (json_number C) raw = Some (Num 1.2)
     \<longrightarrow> temperature (ChatClient_init C
           (usePersistentState_effect (json_number C) st (lit ''temperature'')
              (temperature (setTemperature (Num 1.2) s)))) = Num 1.2)
   \<and> (items st (lit ''maxTokens'') = Some bad \<and> JSON_parse (json_number C) bad = None
     \<longrightarrow> maxTokens (ChatClient_init C st) = Num 512)
   \<and> temperature (ChatClient_init C (st\<lparr>items := (items st)(lit ''maxTokens'' \<mapsto> bad)\<rparr>))
       = temperature (ChatClient_init C st)"
proof (intro conjI impI)
  assume h: "\<not> setItem_throws st \<and> \<not> getItem_throws st
      \<and> JSON_stringify (json_number C) (Num 1.2) = Some raw \<and> raw \<noteq> []
      \<and> JSON_parse (json_number C) raw = Some (Num 1.2)"
  let ?st' = "st\<lparr>items := (items st)(lit ''temperature'' \<mapsto> raw)\<rparr>"
  have "usePersistentState_effect (json_number C) st (lit ''temperature'')
          (temperature (setTemperature (Num 1.2) s)) = ?st'"
    using h by (simp add: setTemperature_def effect_written)
  moreover have "usePersistentState_init (json_number C) ?st' (lit ''temperature'') (Num 0.6)
                   = Num 1.2"
    using h by (intro init_decoded [where raw = raw]) simp_all
  ultimately show "temperature (ChatClient_init C
           (usePersistentState_effect (json_number C) st (lit ''temperature'')
              (temperature (setTemperature (Num 1.2) s)))) = Num 1.2"
    by (simp add: ChatClient_init_def)
next
  assume "items st (lit ''maxTokens'') = Some bad \<and> JSON_parse (json_number C) bad = None"
  then have "usePersistentState_init (json_number C) st (lit ''maxTokens'') (Num 512) = Num 512"
    by (intro init_default) blast
  then show "maxTokens (ChatClient_init C st) = Num 512"
    by (simp add: ChatClient_init_def)
next
  have "lit ''maxTokens'' \<noteq> lit ''temperature''"
    by (simp add: lit_def)
  then have "usePersistentState_init (json_number C)
               (st\<lparr>items := (items st)(lit ''maxTokens'' := Some bad)\<rparr>) (lit ''temperature'')
               (Num 0.6)
             = usePersistentState_init (json_number C) st (lit ''temperature'') (Num 0.6)"
    by (rule init_other_key)
  then show "temperature (ChatClient_init C (st\<lparr>items := (items st)(lit ''maxTokens'' \<mapsto> bad)\<rparr>))
       = temperature (ChatClient_init C st)"
    by (simp add: ChatClient_init_def)
qed

theorem temperature_round_trip_witness:
  "JSON_stringify (json_number sample_codecs) (Num 1.2) = Some (lit ''1.2'')
   \<and> JSON_parse (json_number sample_codecs) (lit ''1.2'') = Some (Num 1.2)
   \<and> temperature (ChatClient_init sample_codecs
        (usePersistentState_effect (json_number sample_codecs) empty_storage (lit ''temperature'')
           (temperature (setTemperature (Num 1.2) first_render)))) = Num 1.2
   \<and> JSON_parse (json_number sample_codecs) (lit ''{oops'') = None
   \<and> maxTokens (ChatClient_init sample_codecs (corrupt_entry (lit ''maxTokens'') empty_storage))
       = Num 512"
proof -
  note round_trip = temperature_round_trip [THEN conjunct1, rule_format]
  note fallback = temperature_round_trip [THEN conjunct2, THEN conjunct1, rule_format]
  have nonempty: "lit ''1.2'' \<noteq> []"
    by (simp add: lit_def)
  have a: "temperature (ChatClient_init sample_codecs
        (usePersistentState_effect (json_number sample_codecs) empty_storage (lit ''temperature'')
           (temperature (setTemperature (Num 1.2) first_render)))) = Num 1.2"
    using sample_number_json nonempty
    by (intro round_trip [where raw = "lit ''1.2''"] conjI) (simp_all add: empty_storage_def)
  have b: "maxTokens (ChatClient_init sample_codecs (corrupt_entry (lit ''maxTokens'') empty_storage))
             = Num 512"
    using sample_number_json
    by (intro fallback [where bad = "lit ''{oops''"] conjI) (simp_all add: corrupt_entry_def)
  show ?thesis
    using a b sample_number_json by (intro conjI)
qed

text \<open>
  Claim C7, as the claim states it, fails: the handler of the "Max tokens" field stores
  \<^verbatim>\<open>parseInt\<close> of the field's text, and \<^verbatim>\<open>parseInt("0", 10)\<close> for an empty field, so after
  the user has emptied the field \<^verbatim>\<open>maxTokens\<close> is 0, outside of 64..4096.
\<close>

theorem maxTokens_out_of_range_counterexample:
  "maxTokens_in_range (maxTokens first_render)
   \<and> maxTokens (maxTokens_onChange [] first_render) = Num 0
   \<and> \<not> maxTokens_in_range (maxTokens (maxTokens_onChange [] first_render))"
  by (simp add: maxTokens_onChange_def setMaxTokens_def parseInt10_zero maxTokens_in_range_def
      first_render_def)

text \<open>
  Claim C7, amended. The defaults 0.6 and 512 lie in the two ranges, and each of
  \<^verbatim>\<open>temperature\<close> and \<^verbatim>\<open>maxTokens\<close> takes its default in the first render when the storage
  cannot be read or its own entry is missing, empty or not decodable. No range is
  enforced after that: a decodable entry is taken as it is, and an emptied "Max tokens"
  field stores 0.
\<close>

theorem settings_fall_back_to_defaults:
  "temperature_in_range (Num 0.6) \<and> maxTokens_in_range (Num 512)
   \<and> (getItem_throws st \<or> items st (lit ''temperature'') = None
        \<or> items st (lit ''temperature'') = Some []
        \<or> (\<exists>raw. items st (lit ''temperature'') = Some raw
                 \<and> JSON_parse (json_number C) raw = None)
      \<longrightarrow> temperature (ChatClient_init C st) = Num 0.6)
   \<and> (getItem_throws st \<or> items st (lit ''maxTokens'') = None
        \<or> items st (lit ''maxTokens'') = Some []
        \<or> (\<exists>raw. items st (lit ''maxTokens'') = Some raw
                 \<and> JSON_parse (json_number C) raw = None)
      \<longrightarrow> maxTokens (ChatClient_init C st) = Num 512)
   \<and> (\<not> getItem_throws st \<and> items st (lit ''temperature'') = Some raw \<and> raw \<noteq> []
        \<and> JSON_parse (json_number C) raw = Some v
      \<longrightarrow> temperature (ChatClient_init C st) = v)
   \<and> (\<not> getItem_throws st \<and> items st (lit ''maxTokens'') = Some raw \<and> raw \<noteq> []
        \<and> JSON_parse (json_number C) raw = Some v
      \<longrightarrow> maxTokens (ChatClient_init C st) = v)
   \<and> maxTokens (maxTokens_onChange [] s) = Num 0"
proof (intro conjI impI)
  show "temperature_in_range (Num 0.6)"
    by (simp add: temperature_in_range_def)
  show "maxTokens_in_range (Num 512)"
    by (simp add: maxTokens_in_range_def)
  show "maxTokens (maxTokens_onChange [] s) = Num 0"
    by (simp add: maxTokens_onChange_def setMaxTokens_def parseInt10_zero)
qed (simp_all add: ChatClient_init_def init_default init_decoded)

theorem settings_fall_back_to_defaults_witness:
  "JSON_parse (json_number sample_codecs) (lit ''{oops'') = None
   \<and> temperature (ChatClient_init sample_codecs (corrupt_entry (lit ''temperature'') empty_storage))
       = Num 0.6
   \<and> items empty_storage (lit ''maxTokens'') = None
   \<and> maxTokens (ChatClient_init sample_codecs empty_storage) = Num 512
   \<and> JSON_parse (json_number sample_codecs) (lit ''5'') = Some (Num 5)
   \<and> temperature (ChatClient_init sample_codecs
        (empty_storage\<lparr>items := [lit ''temperature'' \<mapsto> lit ''5'']\<rparr>)) = Num 5
   \<and> \<not> temperature_in_range (Num 5)
   \<and> maxTokens (ChatClient_init sample_codecs
        (empty_storage\<lparr>items := [lit ''maxTokens'' \<mapsto> lit ''5'']\<rparr>)) = Num 5
   \<and> \<not> maxTokens_in_range (Num 5)"
proof -
  note temperature_default = settings_fall_back_to_defaults
      [THEN conjunct2, THEN conjunct2, THEN conjunct1, rule_format]
  note maxTokens_default = settings_fall_back_to_defaults
      [THEN conjunct2, THEN conjunct2, THEN conjunct2, THEN conjunct1, rule_format]
  note temperature_decoded = settings_fall_back_to_defaults
      [THEN conjunct2, THEN conjunct2, THEN conjunct2, THEN conjunct2, THEN conjunct1,
       rule_format]
  note maxTokens_decoded = settings_fall_back_to_defaults
      [THEN conjunct2, THEN conjunct2, THEN conjunct2, THEN conjunct2, THEN conjunct2,
       THEN conjunct1, rule_format]
  have nonempty: "lit ''5'' \<noteq> []"
    by (simp add: lit_def)
  have none: "items empty_storage (lit ''maxTokens'') = None"
    by (simp add: empty_storage_def)
  have a: "temperature (ChatClient_init sample_codecs
             (corrupt_entry (lit ''temperature'') empty_storage)) = Num 0.6"
    by (rule temperature_default) (simp add: corrupt_entry_def sample_number_json)
  have b: "maxTokens (ChatClient_init sample_codecs empty_storage) = Num 512"
    by (rule maxTokens_default) (simp add: none)
  have c: "temperature (ChatClient_init sample_codecs
             (empty_storage\<lparr>items := [lit ''temperature'' \<mapsto> lit ''5'']\<rparr>)) = Num 5"
    using sample_number_json(4) nonempty
    by (intro temperature_decoded [where raw = "lit ''5''"] conjI)
       (simp_all add: empty_storage_def)
  have d: "maxTokens (ChatClient_init sample_codecs
             (empty_storage\<lparr>items := [lit ''maxTokens'' \<mapsto> lit ''5'']\<rparr>)) = Num 5"
    using sample_number_json(4) nonempty
    by (intro maxTokens_decoded [where raw = "lit ''5''"] conjI)
       (simp_all add: empty_storage_def)
  have out: "\<not> temperature_in_range (Num 5)" "\<not> maxTokens_in_range (Num 5)"
    by (simp_all add: temperature_in_range_def maxTokens_in_range_def)
  show ?thesis
    using a b c d none out sample_number_json by (intro conjI)
qed


section \<open>Merging the stream into the history\<close>

lemma append_delta_length: "length (append_delta d ms) = length ms"
  by (simp add: append_delta_def)

lemma append_delta_butlast: "butlast (append_delta d ms) = butlast ms"
  by (simp add: append_delta_def butlast_list_update)

lemma append_delta_snoc:
  "append_delta d (ms @ [\<lparr>role = Assistant, content = t\<rparr>]) =
     ms @ [\<lparr>role = Assistant, content = t @ d\<rparr>]"
  by (simp add: append_delta_def)

lemma append_delta_no_target:
  "ms = [] \<or> role (last ms) \<noteq> Assistant \<Longrightarrow> append_delta d ms = ms"
  by (auto simp: append_delta_def)

lemma consume_Cons: "consume (c # cs) s = consume cs (on_chunk c s)"
  by (simp add: consume_def)

lemma consume_messages:
  "messages s = ms @ [\<lparr>role = Assistant, content = t\<rparr>] \<Longrightarrow>
   messages (consume cs s) =
     ms @ [\<lparr>role = Assistant, content = t @ concat (map chunk_text cs)\<rparr>]"
proof (induction cs arbitrary: s t)
  case Nil
  then show ?case by (simp add: consume_def)
next
  case (Cons c cs)
  have step: "messages (on_chunk c s) = ms @ [\<lparr>role = Assistant, content = t @ chunk_text c\<rparr>]"
    using Cons.prems by (simp add: on_chunk_def Let_def append_delta_snoc)
  show ?case
    using Cons.IH [OF step] by (simp add: consume_Cons)
qed

lemma consume_empty_history: "messages s = [] \<Longrightarrow> messages (consume cs s) = []"
proof (induction cs arbitrary: s)
  case Nil
  then show ?case by (simp add: consume_def)
next
  case (Cons c cs)
  have "messages (on_chunk c s) = []"
    using Cons.prems by (simp add: on_chunk_def Let_def append_delta_def)
  then show ?case
    using Cons.IH by (simp add: consume_Cons)
qed

lemma consume_requests: "requests (consume cs s) = requests s"
  unfolding consume_def by (induction cs arbitrary: s) (simp_all add: on_chunk_def Let_def)

lemma consume_alerts: "alerts (consume cs s) = alerts s"
  unfolding consume_def by (induction cs arbitrary: s) (simp_all add: on_chunk_def Let_def)

lemma concat_nonempty: "concat (filter (\<lambda>d. d \<noteq> []) ds) = concat ds"
  by (induction ds) auto

lemma run_begin_messages:
  "messages (run_begin text s) =
     (messages s @ [\<lparr>role = User, content = text\<rparr>]) @ [\<lparr>role = Assistant, content = []\<rparr>]"
  by (simp add: run_begin_def)

text \<open>
  Claim C10. Applying a streamed chunk to the history keeps the length of the message
  list and every message but the last; and when the list is empty or its last message is
  not the assistant's, the chunk leaves the whole state as it is (the updater has no
  failing branch).
\<close>

theorem chunk_changes_last_only:
  "length (messages (on_chunk c s)) = length (messages s)
   \<and> butlast (messages (on_chunk c s)) = butlast (messages s)
   \<and> (messages s = [] \<or> role (last (messages s)) \<noteq> Assistant \<longrightarrow> on_chunk c s = s)"
  by (simp add: on_chunk_def Let_def append_delta_length append_delta_butlast
      append_delta_no_target)

theorem chunk_changes_last_only_witness:
  "role (last (messages (first_render\<lparr>messages := [\<lparr>role = User, content = lit ''hi''\<rparr>]\<rparr>)))
     \<noteq> Assistant
   \<and> on_chunk (text_chunk (lit ''yo''))
        (first_render\<lparr>messages := [\<lparr>role = User, content = lit ''hi''\<rparr>]\<rparr>)
       = first_render\<lparr>messages := [\<lparr>role = User, content = lit ''hi''\<rparr>]\<rparr>
   \<and> messages first_render = []
   \<and> on_chunk (text_chunk (lit ''yo'')) first_render = first_render"
  using chunk_changes_last_only [of "text_chunk (lit ''yo'')"
          "first_render\<lparr>messages := [\<lparr>role = User, content = lit ''hi''\<rparr>]\<rparr>"]
        chunk_changes_last_only [of "text_chunk (lit ''yo'')" first_render]
  by (simp add: first_render_def)

text \<open>
  Claim C3. After \<^verbatim>\<open>run\<close> has appended the user message and the empty placeholder, the
  chunks \<open>cs\<close> of the request leave the history as it was before the send, then the user
  message, then the assistant message whose content is the concatenation of the
  non-empty deltas of \<open>cs\<close> in their order of arrival. A chunk with an empty delta changes
  nothing in the state.
\<close>

theorem stream_merge_in_arrival_order:
  "messages (consume cs (run_begin text s)) =
     messages s @ [\<lparr>role = User, content = text\<rparr>,
                   \<lparr>role = Assistant,
                    content = concat (filter (\<lambda>d. d \<noteq> []) (map chunk_text cs))\<rparr>]
   \<and> (chunk_text c = [] \<longrightarrow> on_chunk c s' = s')"
proof -
  have "messages (consume cs (run_begin text s)) =
          (messages s @ [\<lparr>role = User, content = text\<rparr>]) @
          [\<lparr>role = Assistant, content = [] @ concat (map chunk_text cs)\<rparr>]"
    by (rule consume_messages) (rule run_begin_messages)
  then show ?thesis
    by (simp add: concat_nonempty on_chunk_def)
qed

theorem stream_merge_in_arrival_order_witness:
  "chunk_text (Chunk None) = []
   \<and> on_chunk (Chunk None) (run_begin (lit ''hi'') first_render)
       = run_begin (lit ''hi'') first_render
   \<and> messages (consume [text_chunk (lit ''Hi''), Chunk None, text_chunk (lit '' there'')]
                (run_begin (lit ''hi'') first_render))
       = [\<lparr>role = User, content = lit ''hi''\<rparr>,
          \<lparr>role = Assistant, content = lit ''Hi there''\<rparr>]"
  using stream_merge_in_arrival_order
          [of "[text_chunk (lit ''Hi''), Chunk None, text_chunk (lit '' there'')]" "lit ''hi''"
              first_render "Chunk None" "run_begin (lit ''hi'') first_render"]
  by (simp add: chunk_text_def text_chunk_def first_render_def lit_def)


section \<open>The whole of a generation\<close>

lemma run_end_messages: "messages (run_end ended s) = messages s"
  by (simp add: run_end_def Let_def split: option.splits)

lemma run_end_requests: "requests (run_end ended s) = requests s"
  by (simp add: run_end_def Let_def split: option.splits)

lemma run_end_generating: "generating (run_end ended s) = False"
  by (simp add: run_end_def Let_def split: option.splits)

lemma run_requests: "requests (run E text s) = requests s @ [outbound text s]"
  by (simp add: run_def run_end_requests consume_requests run_begin_def split: prod.splits)

lemma run_alerts:
  "alerts (run E text s) = alerts (run_end (snd (completions_create E (outbound text s))) s)"
  by (simp add: run_def run_end_def Let_def consume_alerts run_begin_def
      split: prod.splits option.splits)

lemma run_generating: "generating (run E text s) = False"
  by (simp add: run_def run_end_generating split: prod.splits)

lemma run_messages:
  "messages (run E text s) =
     messages s @ [\<lparr>role = User, content = text\<rparr>,
                   \<lparr>role = Assistant,
                    content = concat (map chunk_text (fst (completions_create E (outbound text s))))\<rparr>]"
proof -
  have "messages (consume cs (run_begin text s)) =
          (messages s @ [\<lparr>role = User, content = text\<rparr>]) @
          [\<lparr>role = Assistant, content = [] @ concat (map chunk_text cs)\<rparr>]" for cs
    by (rule consume_messages) (rule run_begin_messages)
  then show ?thesis
    by (simp add: run_def run_end_messages split: prod.splits)
qed

lemma initEngine_messages: "messages (initEngine E s) = messages s"
  by (simp add: initEngine_def Let_def split: sum.splits)

lemma initEngine_requests: "requests (initEngine E s) = requests s"
  by (simp add: initEngine_def Let_def split: sum.splits)

lemma send_engine_None: "engine s = None \<Longrightarrow> send E s = initEngine E s"
  by (simp add: send_def Let_def)

lemma send_blank:
  "trim (input s) = [] \<Longrightarrow> messages (send E s) = messages s \<and> requests (send E s) = requests s"
  by (simp add: send_def send_input_def Let_def initEngine_messages initEngine_requests)

lemma send_ready_requests:
  "engine s \<noteq> None \<Longrightarrow> trim (input s) \<noteq> [] \<Longrightarrow>
   requests (send E s) = requests s @ [outbound (trim (input s)) s]"
  by (cases "engine s") (simp_all add: send_def send_input_def Let_def run_requests)

lemma send_ready_messages:
  "engine s \<noteq> None \<Longrightarrow> trim (input s) \<noteq> [] \<Longrightarrow>
   messages (send E s) =
     messages s @ [\<lparr>role = User, content = trim (input s)\<rparr>,
                   \<lparr>role = Assistant,
                    content = concat (map chunk_text
                      (fst (completions_create E (outbound (trim (input s)) s))))\<rparr>]"
  by (cases "engine s") (simp_all add: send_def send_input_def Let_def run_messages)

lemma as_param_role_not_system: "as_param_role r \<noteq> RoleSystem"
  by (cases r) simp_all

text \<open>
  Claim C2. With \<^verbatim>\<open>stripDefaults\<close> the messages of the request are one system message
  whose content is the trimmed \<^verbatim>\<open>userRules\<close>, then the history before the send and the
  new user message, none of them a system message; without \<^verbatim>\<open>stripDefaults\<close> they are
  the history and the new user message only, with no system message. This is the
  request \<^verbatim>\<open>send\<close> gives to the engine when the engine is there and the trimmed input is
  not empty.
\<close>

theorem outbound_policy_switch:
  "(stripDefaults s \<longrightarrow>
      req_messages (outbound text s) =
        \<lparr>role = RoleSystem, content = trim (userRules s)\<rparr> #
        map (\<lambda>m. \<lparr>role = as_param_role (role m), content = content m\<rparr>)
          (messages s @ [\<lparr>role = User, content = text\<rparr>])
      \<and> (\<forall>m \<in> set (tl (req_messages (outbound text s))). role m \<noteq> RoleSystem))
   \<and> (\<not> stripDefaults s \<longrightarrow>
      req_messages (outbound text s) =
        map (\<lambda>m. \<lparr>role = as_param_role (role m), content = content m\<rparr>)
          (messages s @ [\<lparr>role = User, content = text\<rparr>])
      \<and> (\<forall>m \<in> set (req_messages (outbound text s)). role m \<noteq> RoleSystem))
   \<and> (engine s \<noteq> None \<and> trim (input s) \<noteq> [] \<longrightarrow>
      requests (send E s) = requests s @ [outbound (trim (input s)) s])"
  by (auto simp: outbound_def build_history_def systemMessage_def as_param_role_not_system
      send_ready_requests)

theorem outbound_policy_switch_witness:
  "stripDefaults (loaded\<lparr>userRules := lit '' Be terse. '', input := lit ''hi ''\<rparr>)
   \<and> engine (loaded\<lparr>userRules := lit '' Be terse. '', input := lit ''hi ''\<rparr>) \<noteq> None
   \<and> trim (input (loaded\<lparr>userRules := lit '' Be terse. '', input := lit ''hi ''\<rparr>)) = lit ''hi''
   \<and> requests (send sample_engine
        (loaded\<lparr>userRules := lit '' Be terse. '', input := lit ''hi ''\<rparr>))
     = [\<lparr> req_model = DEFAULT_MODEL,
          req_messages = [\<lparr>role = RoleSystem, content = lit ''Be terse.''\<rparr>,
                          \<lparr>role = RoleUser, content = lit ''hi''\<rparr>],
          req_temperature = Num 0.6, req_max_tokens = Num 512, req_stream = True,
          req_signal = 0 \<rparr>]
   \<and> \<not> stripDefaults (loaded\<lparr>stripDefaults := False\<rparr>)
   \<and> req_messages (outbound (lit ''hi'') (loaded\<lparr>stripDefaults := False\<rparr>))
     = [\<lparr>role = RoleUser, content = lit ''hi''\<rparr>]"
  using outbound_policy_switch
          [of "loaded\<lparr>userRules := lit '' Be terse. '', input := lit ''hi ''\<rparr>" "lit ''hi''"
              sample_engine]
        outbound_policy_switch [of "loaded\<lparr>stripDefaults := False\<rparr>" "lit ''hi''" sample_engine]
  by (simp add: loaded_def first_render_def outbound_def trim_def isWhiteSpace_def lit_def)

text \<open>
  Claim C1. The page calls \<^verbatim>\<open>send\<close> from two places only: a key pressed in the text
  input and a click on the Send button. When the input is empty or holds white space
  only, or while a request is active (\<^verbatim>\<open>generating\<close> is true), either event leaves the
  history as it is and gives the engine no request. Two parts of this are stated on
  their own: \<^verbatim>\<open>send\<close> itself leaves the history and the requests as they are on such an
  input, and while \<^verbatim>\<open>generating\<close> is true either event leaves the whole state as it is.
\<close>

theorem send_noop_when_blank_or_active:
  "(((\<forall>c \<in> set (input s). isWhiteSpace c) \<or> generating s)
      \<and> (ev = ClickSend \<or> ev = KeyDown key shiftKey)
     \<longrightarrow> messages (ui E ev s) = messages s \<and> requests (ui E ev s) = requests s)
   \<and> ((\<forall>c \<in> set (input s). isWhiteSpace c) \<longrightarrow>
      messages (send E s) = messages s \<and> requests (send E s) = requests s)
   \<and> (generating s \<longrightarrow> ui E ClickSend s = s \<and> ui E (KeyDown key shiftKey) s = s)"
proof (intro conjI impI)
  assume h: "((\<forall>c \<in> set (input s). isWhiteSpace c) \<or> generating s)
      \<and> (ev = ClickSend \<or> ev = KeyDown key shiftKey)"
  show "messages (ui E ev s) = messages s"
  proof (cases "generating s")
    case True
    with h show ?thesis by (auto simp: ui_def)
  next
    case False
    with h have "trim (input s) = []" by (simp add: trim_empty_iff)
    with h show ?thesis by (auto simp: ui_def send_blank)
  qed
  show "requests (ui E ev s) = requests s"
  proof (cases "generating s")
    case True
    with h show ?thesis by (auto simp: ui_def)
  next
    case False
    with h have "trim (input s) = []" by (simp add: trim_empty_iff)
    with h show ?thesis by (auto simp: ui_def send_blank)
  qed
qed (simp_all add: send_blank trim_empty_iff ui_def)

theorem send_noop_when_blank_or_active_witness:
  "list_all isWhiteSpace (input (loaded\<lparr>input := [0x20, 0x9, 0x3000]\<rparr>))
   \<and> messages (ui sample_engine (KeyDown (lit ''Enter'') False)
        (loaded\<lparr>input := [0x20, 0x9, 0x3000]\<rparr>)) = []
   \<and> requests (ui sample_engine (KeyDown (lit ''Enter'') False)
        (loaded\<lparr>input := [0x20, 0x9, 0x3000]\<rparr>)) = []
   \<and> messages (send sample_engine (loaded\<lparr>input := [0x20, 0x9, 0x3000]\<rparr>)) = []
   \<and> requests (send sample_engine (loaded\<lparr>input := [0x20, 0x9, 0x3000]\<rparr>)) = []
   \<and> generating streaming
   \<and> input streaming = lit ''one''
   \<and> messages (ui sample_engine ClickSend streaming) = messages streaming
   \<and> requests (ui sample_engine ClickSend streaming) = requests streaming
   \<and> ui sample_engine ClickSend streaming = streaming
   \<and> ui sample_engine (KeyDown (lit ''Enter'') False) streaming = streaming"
proof -
  let ?blank = "loaded\<lparr>input := [0x20, 0x9, 0x3000]\<rparr>"
  note by_page = send_noop_when_blank_or_active [THEN conjunct1, rule_format]
  note by_send = send_noop_when_blank_or_active [THEN conjunct2, THEN conjunct1, THEN mp]
  note gated = send_noop_when_blank_or_active [THEN conjunct2, THEN conjunct2, rule_format]
  have white: "\<forall>c \<in> set (input ?blank). isWhiteSpace c"
    by (simp add: isWhiteSpace_def)
  have empty: "messages ?blank = []" "requests ?blank = []"
    by (simp_all add: loaded_def first_render_def)
  have active: "generating streaming" "input streaming = lit ''one''"
    by (simp_all add: streaming_def run_begin_def)
  have a: "messages (ui sample_engine (KeyDown (lit ''Enter'') False) ?blank) = messages ?blank
           \<and> requests (ui sample_engine (KeyDown (lit ''Enter'') False) ?blank) = requests ?blank"
    using white by (intro by_page [where key = "lit ''Enter''" and shiftKey = False]) blast
  have b: "messages (send sample_engine ?blank) = messages ?blank
           \<and> requests (send sample_engine ?blank) = requests ?blank"
    by (rule by_send) (rule white)
  have c: "messages (ui sample_engine ClickSend streaming) = messages streaming
           \<and> requests (ui sample_engine ClickSend streaming) = requests streaming"
    using active(1) by (intro by_page [where key = "[]" and shiftKey = False]) blast
  have d: "ui sample_engine ClickSend streaming = streaming
           \<and> ui sample_engine (KeyDown (lit ''Enter'') False) streaming = streaming"
    using active(1) by (rule gated)
  have l: "list_all isWhiteSpace (input ?blank)"
    using white by (simp add: list_all_iff)
  show ?thesis
    using l a b c d active empty by simp
qed

text \<open>
  Claim C9. The page calls \<^verbatim>\<open>resetChat\<close> from the Clear button only. While a request is
  active (\<^verbatim>\<open>generating\<close> is true) the button is disabled and the click is rejected: the
  state stays as it is. Otherwise the click is \<^verbatim>\<open>resetChat\<close>, which sets the history to
  the empty list and changes nothing else. Chunks that arrive on a cleared history leave
  it empty.
\<close>

theorem reset_clears_and_is_gated:
  "messages (resetChat s) = []
   \<and> resetChat s = s\<lparr>messages := []\<rparr>
   \<and> (generating s \<longrightarrow> ui E ClickClear s = s)
   \<and> (\<not> generating s \<longrightarrow> ui E ClickClear s = resetChat s)
   \<and> messages (consume cs (resetChat s)) = []"
  by (simp add: resetChat_def ui_def consume_empty_history)

theorem reset_clears_and_is_gated_witness:
  "generating streaming
   \<and> messages streaming \<noteq> []
   \<and> ui sample_engine ClickClear streaming = streaming
   \<and> \<not> generating (run sample_engine (lit ''one'') loaded)
   \<and> messages (run sample_engine (lit ''one'') loaded) \<noteq> []
   \<and> messages (ui sample_engine ClickClear (run sample_engine (lit ''one'') loaded)) = []"
proof -
  have active: "generating streaming"
    by (simp add: streaming_def run_begin_def)
  have filled: "messages streaming \<noteq> []"
    by (simp add: streaming_def run_begin_def)
  have idle: "\<not> generating (run sample_engine (lit ''one'') loaded)"
    by (simp add: run_generating)
  have some: "messages (run sample_engine (lit ''one'') loaded) \<noteq> []"
    by (simp add: run_messages)
  have rejected: "ui sample_engine ClickClear streaming = streaming"
    using reset_clears_and_is_gated [of streaming sample_engine] active by blast
  have cleared:
    "messages (ui sample_engine ClickClear (run sample_engine (lit ''one'') loaded)) = []"
    using reset_clears_and_is_gated [of "run sample_engine (lit ''one'') loaded" sample_engine]
      idle by simp
  show ?thesis
    using active filled idle some rejected cleared by (intro conjI)
qed

text \<open>
  Claim C4. When the stream of a request throws after the chunks \<open>cs\<close> and the thrown
  value is not named AbortError, \<^verbatim>\<open>run\<close> shows one alert, the history ends with the user
  message and the assistant message holding the deltas of \<open>cs\<close>, and \<^verbatim>\<open>generating\<close> is
  false again. When the thrown value is named AbortError, no alert is shown, and the
  history and \<^verbatim>\<open>generating\<close> are the same as before. With \<^verbatim>\<open>generating\<close> false, the Enter
  key in the text input calls \<^verbatim>\<open>send\<close> again.
\<close>

theorem stream_failure_and_cancellation:
  "(completions_create E (outbound text s) = (cs, Some err)
      \<and> err_name err \<noteq> Some (lit ''AbortError'') \<longrightarrow>
        alerts (run E text s) = alerts s @ [generation_failed_message]
        \<and> messages (run E text s) =
            messages s @ [\<lparr>role = User, content = text\<rparr>,
                          \<lparr>role = Assistant, content = concat (map chunk_text cs)\<rparr>]
        \<and> \<not> generating (run E text s))
   \<and> (completions_create E (outbound text s) = (cs, Some err)
      \<and> err_name err = Some (lit ''AbortError'') \<longrightarrow>
        alerts (run E text s) = alerts s
        \<and> messages (run E text s) =
            messages s @ [\<lparr>role = User, content = text\<rparr>,
                          \<lparr>role = Assistant, content = concat (map chunk_text cs)\<rparr>]
        \<and> \<not> generating (run E text s))
   \<and> (\<not> generating s' \<longrightarrow> ui E (KeyDown (lit ''Enter'') False) s' = send E s')"
  by (simp add: run_alerts run_messages run_generating run_end_def ui_def)

theorem stream_failure_and_cancellation_witness:
  "completions_create failing_engine (outbound (lit ''x'') loaded)
     = ([text_chunk (lit ''partial'')], Some (Thrown (Some (lit ''Error''))))
   \<and> err_name (Thrown (Some (lit ''Error''))) \<noteq> Some (lit ''AbortError'')
   \<and> alerts (run failing_engine (lit ''x'') loaded) = [generation_failed_message]
   \<and> messages (run failing_engine (lit ''x'') loaded)
       = [\<lparr>role = User, content = lit ''x''\<rparr>, \<lparr>role = Assistant, content = lit ''partial''\<rparr>]
   \<and> \<not> generating (run failing_engine (lit ''x'') loaded)
   \<and> ui failing_engine (KeyDown (lit ''Enter'') False) (run failing_engine (lit ''x'') loaded)
       = send failing_engine (run failing_engine (lit ''x'') loaded)
   \<and> completions_create cancelled_engine (outbound (lit ''x'') loaded)
     = ([text_chunk (lit ''partial'')], Some (Thrown (Some (lit ''AbortError''))))
   \<and> alerts (run cancelled_engine (lit ''x'') loaded) = []
   \<and> messages (run cancelled_engine (lit ''x'') loaded)
       = [\<lparr>role = User, content = lit ''x''\<rparr>, \<lparr>role = Assistant, content = lit ''partial''\<rparr>]"
proof -
  let ?cs = "[text_chunk (lit ''partial'')]"
  have f: "completions_create failing_engine (outbound (lit ''x'') loaded)
             = (?cs, Some (Thrown (Some (lit ''Error''))))"
    by (simp add: failing_engine_def)
  have c: "completions_create cancelled_engine (outbound (lit ''x'') loaded)
             = (?cs, Some (Thrown (Some (lit ''AbortError''))))"
    by (simp add: cancelled_engine_def)
  have n: "err_name (Thrown (Some (lit ''Error''))) \<noteq> Some (lit ''AbortError'')"
    by (simp add: lit_def)
  have a: "err_name (Thrown (Some (lit ''AbortError''))) = Some (lit ''AbortError'')"
    by simp
  have t: "concat (map chunk_text ?cs) = lit ''partial''"
    by (simp add: chunk_text_def text_chunk_def)
  have l: "messages loaded = [] \<and> alerts loaded = []"
    by (simp add: loaded_def first_render_def)
  note F = stream_failure_and_cancellation
             [of failing_engine "lit ''x''" loaded ?cs "Thrown (Some (lit ''Error''))"
                 "run failing_engine (lit ''x'') loaded"]
  note C = stream_failure_and_cancellation
             [of cancelled_engine "lit ''x''" loaded ?cs "Thrown (Some (lit ''AbortError''))"]
  show ?thesis
    using F C f c n a t l by simp
qed

text \<open>
  Claim C8, at the input where the code leaves it. The model did not load when the page
  was mounted; the user types "hi" and sends it, and this time the model loads. The
  engine is stored, but \<^verbatim>\<open>send\<close> returns at \<^verbatim>\<open>if (!engine) return\<close>: no message is
  appended, no request is made, and the input keeps its text.
\<close>

theorem send_returns_after_load:
  "engine load_failed = None
   \<and> loadingModel load_failed = False
   \<and> input load_failed = lit ''hi''
   \<and> engine (send sample_engine load_failed) = Some (MLCEngine DEFAULT_MODEL)
   \<and> messages (send sample_engine load_failed) = []
   \<and> requests (send sample_engine load_failed) = []
   \<and> input (send sample_engine load_failed) = lit ''hi''"
  by (simp add: load_failed_def send_def initEngine_def Let_def first_render_def
      sample_engine_def offline_engine_def)

end
